theory Spec2Isabelle
  imports Complex_Main "HOL-Library.AList"
begin

section \<open>rsid\_to\_hs37d5: resolving rsIDs to hs37d5 coordinates\<close>

text \<open>
  A shallow embedding of \<^verbatim>\<open>rsid_to_hs37d5.py\<close>. The program is dynamically typed: the
  payload of a service is whatever \<^verbatim>\<open>response.json()\<close> returns, and the program
  inspects it with \<^verbatim>\<open>in\<close>, subscripts, \<^verbatim>\<open>.get\<close>, \<^verbatim>\<open>isinstance\<close> and truth
  tests. The embedding therefore has one type of Python values and gives each of these
  operations the result Python gives, an exception included.
\<close>

subsection \<open>Python values and exceptions\<close>

text \<open>
  The values a decoded JSON document is made of. A dict is an association list in
  insertion order; a lookup takes the first binding of a key, and \<open>AList.update\<close>
  is Python's item assignment (an existing key keeps its place, a new key goes last).
  Strings are lists of 8-bit characters, so code points from 256 on are outside the
  model, and so are floating-point numbers.
\<close>

datatype pyval =
    PNone
  | PBool bool
  | PInt int
  | PStr string
  | PList "pyval list"
  | PDict "(string \<times> pyval) list"

text \<open>
  The exceptions the program can meet. \<open>RequestException\<close> stands for the whole class
  \<^verbatim>\<open>requests.exceptions.RequestException\<close> (connection errors, timeouts, HTTP
  errors), with the text of the exception.
\<close>

datatype exn =
    RequestException string
  | ValueError string
  | KeyError string
  | IndexError
  | TypeError
  | AttributeError

text \<open>Sequencing of computations that may raise.\<close>

definition ebind :: "exn + 'a \<Rightarrow> ('a \<Rightarrow> exn + 'b) \<Rightarrow> exn + 'b" where
  "ebind m f = (case m of Inl e \<Rightarrow> Inl e | Inr x \<Rightarrow> f x)"

subsection \<open>String operations\<close>

text \<open>\<^verbatim>\<open>s.startswith(p)\<close>\<close>

definition startswith :: "string \<Rightarrow> string \<Rightarrow> bool" where
  "startswith s p = (take (length p) s = p)"

text \<open>\<^verbatim>\<open>p in s\<close> for two strings: \<open>p\<close> occurs in \<open>s\<close>.\<close>

fun str_contains :: "string \<Rightarrow> string \<Rightarrow> bool" where
  "str_contains [] p = (p = [])"
| "str_contains (c # cs) p = (startswith (c # cs) p \<or> str_contains cs p)"

text \<open>
  \<^verbatim>\<open>s.replace(old, new)\<close>: every occurrence of \<open>old\<close>, found from left to right
  and never overlapping an earlier one, becomes \<open>new\<close>. With an empty \<open>old\<close>,
  \<open>new\<close> goes before every character and at the end.
\<close>

function py_replace :: "string \<Rightarrow> string \<Rightarrow> string \<Rightarrow> string" where
  "py_replace s old new =
     (if old = [] then new @ concat (map (\<lambda>c. c # new) s)
      else if s = [] then []
      else if startswith s old then new @ py_replace (drop (length old) s) old new
      else hd s # py_replace (tl s) old new)"
  by pat_completeness auto
termination
  by (relation "measure (\<lambda>(s, old, new). length s)") auto

text \<open>\<^verbatim>\<open>s.split(sep)\<close> for a separator of one character.\<close>

fun py_split :: "string \<Rightarrow> char \<Rightarrow> string list" where
  "py_split [] sep = [[]]"
| "py_split (c # cs) sep =
     (if c = sep then [] # py_split cs sep
      else (case py_split cs sep of
              [] \<Rightarrow> [[c]]
            | w # ws \<Rightarrow> (c # w) # ws))"

text \<open>\<^verbatim>\<open>sep.join(parts)\<close> for a list of strings.\<close>

fun join :: "string \<Rightarrow> string list \<Rightarrow> string" where
  "join sep [] = []"
| "join sep [x] = x"
| "join sep (x # y # ys) = x @ sep @ join sep (y # ys)"

subsection \<open>Conversion to text: \<^verbatim>\<open>str\<close> and \<^verbatim>\<open>repr\<close>\<close>

fun nat_digits :: "nat \<Rightarrow> string" where
  "nat_digits n =
     (if n < 10 then [''0123456789'' ! n]
      else nat_digits (n div 10) @ [''0123456789'' ! (n mod 10)])"

definition str_int :: "int \<Rightarrow> string" where
  "str_int i = (if i < 0 then CHR ''-'' # nat_digits (nat (- i)) else nat_digits (nat i))"

definition hex2 :: "nat \<Rightarrow> string" where
  "hex2 n = [''0123456789abcdef'' ! (n div 16 mod 16), ''0123456789abcdef'' ! (n mod 16)]"

text \<open>
  \<^verbatim>\<open>repr\<close> of a string: in single quotes, unless it has a single quote and no double
  quote; the quote and the backslash are escaped, and so is every character that is not
  printable.
\<close>

definition repr_quote :: "string \<Rightarrow> char" where
  "repr_quote s = (if CHR 0x27 \<in> set s \<and> CHR 0x22 \<notin> set s then CHR 0x22 else CHR 0x27)"

definition repr_char :: "char \<Rightarrow> char \<Rightarrow> string" where
  "repr_char q c =
     (let n = (of_char c :: nat) in
      if c = q \<or> c = CHR 0x5C then [CHR 0x5C, c]
      else if n = 9 then [CHR 0x5C, CHR ''t'']
      else if n = 10 then [CHR 0x5C, CHR ''n'']
      else if n = 13 then [CHR 0x5C, CHR ''r'']
      else if n < 32 \<or> (127 \<le> n \<and> n \<le> 160) \<or> n = 173 then CHR 0x5C # CHR ''x'' # hex2 n
      else [c])"

definition repr_str :: "string \<Rightarrow> string" where
  "repr_str s = (let q = repr_quote s in q # concat (map (repr_char q) s) @ [q])"

primrec py_repr :: "pyval \<Rightarrow> string" where
  "py_repr PNone = ''None''"
| "py_repr (PBool b) = (if b then ''True'' else ''False'')"
| "py_repr (PInt i) = str_int i"
| "py_repr (PStr s) = repr_str s"
| "py_repr (PList xs) = ''['' @ join '', '' (map py_repr xs) @ '']''"
| "py_repr (PDict kvs) =
     ''{'' @ join '', '' (map (\<lambda>(k, r). repr_str k @ '': '' @ r) (map (map_prod id py_repr) kvs))
       @ ''}''"

text \<open>\<^verbatim>\<open>str(v)\<close>, also what an f-string puts for \<^verbatim>\<open>{v}\<close>.\<close>

definition py_str :: "pyval \<Rightarrow> string" where
  "py_str v = (case v of PStr s \<Rightarrow> s | _ \<Rightarrow> py_repr v)"

subsection \<open>Operations on values\<close>

text \<open>The truth value of a value, as \<^verbatim>\<open>if v:\<close> and \<^verbatim>\<open>and\<close> take it.\<close>

fun truthy :: "pyval \<Rightarrow> bool" where
  "truthy PNone = False"
| "truthy (PBool b) = b"
| "truthy (PInt i) = (i \<noteq> 0)"
| "truthy (PStr s) = (s \<noteq> [])"
| "truthy (PList xs) = (xs \<noteq> [])"
| "truthy (PDict kvs) = (kvs \<noteq> [])"

text \<open>\<^verbatim>\<open>key in v\<close> for a string \<open>key\<close>.\<close>

fun py_in :: "string \<Rightarrow> pyval \<Rightarrow> exn + bool" where
  "py_in key (PDict kvs) = Inr (key \<in> fst ` set kvs)"
| "py_in key (PList xs) = Inr (PStr key \<in> set xs)"
| "py_in key (PStr s) = Inr (str_contains s key)"
| "py_in key _ = Inl TypeError"

text \<open>\<^verbatim>\<open>v[key]\<close> for a string \<open>key\<close>.\<close>

fun py_getitem :: "pyval \<Rightarrow> string \<Rightarrow> exn + pyval" where
  "py_getitem (PDict kvs) key =
     (case map_of kvs key of None \<Rightarrow> Inl (KeyError key) | Some v \<Rightarrow> Inr v)"
| "py_getitem _ key = Inl TypeError"

text \<open>\<^verbatim>\<open>v[0]\<close>. The keys of a decoded JSON object are strings, so a dict has no key 0.\<close>

fun py_first :: "pyval \<Rightarrow> exn + pyval" where
  "py_first (PList xs) = (case xs of [] \<Rightarrow> Inl IndexError | x # _ \<Rightarrow> Inr x)"
| "py_first (PStr s) = (case s of [] \<Rightarrow> Inl IndexError | c # _ \<Rightarrow> Inr (PStr [c]))"
| "py_first (PDict kvs) = Inl (KeyError ''0'')"
| "py_first _ = Inl TypeError"

text \<open>\<^verbatim>\<open>len(v)\<close>\<close>

fun py_len :: "pyval \<Rightarrow> exn + nat" where
  "py_len (PList xs) = Inr (length xs)"
| "py_len (PStr s) = Inr (length s)"
| "py_len (PDict kvs) = Inr (length kvs)"
| "py_len _ = Inl TypeError"

text \<open>\<^verbatim>\<open>v.get(key, default)\<close>: only a dict has the method.\<close>

fun py_get :: "pyval \<Rightarrow> string \<Rightarrow> pyval \<Rightarrow> exn + pyval" where
  "py_get (PDict kvs) key dflt =
     Inr (case map_of kvs key of None \<Rightarrow> dflt | Some v \<Rightarrow> v)"
| "py_get _ key dflt = Inl AttributeError"

text \<open>\<^verbatim>\<open>sep.join(v)\<close>: \<open>v\<close> is iterated, and every item must be a string.\<close>

fun str_items :: "pyval list \<Rightarrow> exn + string list" where
  "str_items [] = Inr []"
| "str_items (PStr s # vs) = ebind (str_items vs) (\<lambda>ss. Inr (s # ss))"
| "str_items (_ # vs) = Inl TypeError"

fun py_join :: "string \<Rightarrow> pyval \<Rightarrow> exn + string" where
  "py_join sep (PList xs) = ebind (str_items xs) (\<lambda>ss. Inr (join sep ss))"
| "py_join sep (PStr s) = Inr (join sep (map (\<lambda>c. [c]) s))"
| "py_join sep (PDict kvs) = Inr (join sep (map fst kvs))"
| "py_join sep _ = Inl TypeError"

subsection \<open>The services\<close>

text \<open>
  A call of \<^verbatim>\<open>requests.get\<close> either raises or returns a response. Of a response the
  program uses \<^verbatim>\<open>status_code\<close>, \<^verbatim>\<open>raise_for_status()\<close> (which returns nothing or
  raises) and \<^verbatim>\<open>json()\<close> (which returns the decoded payload or raises). The network
  is a parameter of the model: a function from the request to the outcome of the call.
\<close>

record request =
  url :: string
  params :: "(string \<times> string) list"
  headers :: "(string \<times> string) list"
  timeout :: nat

record response =
  status_code :: int
  raise_for_status :: "exn option"
  json :: "exn + pyval"

type_synonym network = "request \<Rightarrow> exn + response"

text \<open>What the program writes and how long it waits, in order.\<close>

datatype event = Print string | Sleep real

text \<open>A locus record is a Python dict; a lookup returns one or \<^verbatim>\<open>None\<close>.\<close>

type_synonym loci = "(string \<times> pyval) list"

text \<open>\<^verbatim>\<open>if not rsid.startswith('rs'): rsid = f"rs{rsid}"\<close>, the first statement of every lookup.\<close>

definition normalize_rsid :: "string \<Rightarrow> string" where
  "normalize_rsid rsid = (if \<not> startswith rsid ''rs'' then ''rs'' @ rsid else rsid)"

text \<open>The dict literal both services start from.\<close>

definition new_result :: "string \<Rightarrow> loci" where
  "new_result rsid =
     [(''rsid'', PStr rsid),
      (''chromosome'', PNone),
      (''position'', PNone),
      (''ref_allele'', PNone),
      (''alt_alleles'', PList []),
      (''build'', PStr ''hs37d5'')]"

text \<open>\<^verbatim>\<open>result[key]\<close> on a record.\<close>

definition item :: "loci \<Rightarrow> string \<Rightarrow> exn + pyval" where
  "item d key = py_getitem (PDict d) key"

text \<open>
  The last statements of both services:
  \<^verbatim>\<open>if result['chromosome'] and result['position']: return result\<close>, then
  \<^verbatim>\<open>return None\<close>.
\<close>

definition return_if_located :: "loci \<Rightarrow> exn + loci option" where
  "return_if_located result =
     ebind (item result ''chromosome'') (\<lambda>chrom.
       if \<not> truthy chrom then Inr None
       else ebind (item result ''position'') (\<lambda>pos.
         if truthy pos then Inr (Some result) else Inr None))"

text \<open>
  \<^verbatim>\<open>except requests.exceptions.RequestException as e\<close>: the handler prints and the
  lookup returns \<^verbatim>\<open>None\<close>; any other exception leaves the function.
\<close>

definition except_request_exception ::
  "string \<Rightarrow> exn + loci option \<Rightarrow> (exn + loci option) \<times> event list" where
  "except_request_exception api body =
     (case body of
        Inl (RequestException e) \<Rightarrow> (Inr None, [Print (''Error with '' @ api @ '' API: '' @ e)])
      | _ \<Rightarrow> (body, []))"

text \<open>\<^verbatim>\<open>response.raise_for_status()\<close> as a statement.\<close>

definition check_status :: "response \<Rightarrow> exn + unit" where
  "check_status r = (case raise_for_status r of Some e \<Rightarrow> Inl e | None \<Rightarrow> Inr ())"

subsubsection \<open>Service A: MyVariant.info\<close>

definition myvariant_request :: "string \<Rightarrow> request" where
  "myvariant_request rsid =
     \<lparr>url = ''https://myvariant.info/v1/variant/'' @ rsid,
      params = [(''assembly'', ''hg19''),
                (''fields'', ''dbsnp.rsid,dbsnp.chrom,dbsnp.hg19,dbsnp.ref,dbsnp.alt'')],
      headers = [],
      timeout = 10\<rparr>"

text \<open>
  The two branches on the shape of \<^verbatim>\<open>hg19_data\<close>: a dict, or a list that is not empty.
  Any other value leaves the record as it is.
\<close>

definition myvariant_coordinates :: "pyval \<Rightarrow> loci \<Rightarrow> exn + loci" where
  "myvariant_coordinates hg19_data result =
     (case hg19_data of
        PDict _ \<Rightarrow>
          ebind (py_get hg19_data ''chr'' (PStr '''')) (\<lambda>c.
          let chrom = py_replace (py_str c) ''chr'' '''' in
          ebind (py_get hg19_data ''start'' PNone) (\<lambda>start.
            Inr (AList.update ''position'' start
                  (AList.update ''chromosome'' (PStr chrom) result))))
      | PList xs \<Rightarrow>
          if length xs > 0 then
            ebind (py_first hg19_data) (\<lambda>first.
            ebind (py_get first ''chr'' (PStr '''')) (\<lambda>c.
            let chrom = py_replace (py_str c) ''chr'' '''' in
            ebind (py_first hg19_data) (\<lambda>first'.
            ebind (py_get first' ''start'' PNone) (\<lambda>start.
              Inr (AList.update ''position'' start
                    (AList.update ''chromosome'' (PStr chrom) result))))))
          else Inr result
      | _ \<Rightarrow> Inr result)"

text \<open>The alleles: \<^verbatim>\<open>ref\<close> as it comes, \<^verbatim>\<open>alt\<close> put in a list when it is a string.\<close>

definition myvariant_alleles :: "pyval \<Rightarrow> loci \<Rightarrow> exn + loci" where
  "myvariant_alleles dbsnp result =
     ebind (py_in ''ref'' dbsnp) (\<lambda>has_ref.
     ebind (if has_ref
            then ebind (py_getitem dbsnp ''ref'') (\<lambda>r. Inr (AList.update ''ref_allele'' r result))
            else Inr result) (\<lambda>result.
     ebind (py_in ''alt'' dbsnp) (\<lambda>has_alt.
       if has_alt
       then ebind (py_getitem dbsnp ''alt'') (\<lambda>alt.
              Inr (AList.update ''alt_alleles''
                     (case alt of PStr _ \<Rightarrow> PList [alt] | _ \<Rightarrow> alt) result))
       else Inr result)))"

text \<open>From \<^verbatim>\<open>result = {...}\<close> to the end of the \<^verbatim>\<open>try\<close> block.\<close>

definition myvariant_parse :: "string \<Rightarrow> pyval \<Rightarrow> exn + loci option" where
  "myvariant_parse rsid data =
     (let result = new_result rsid in
      ebind (ebind (py_in ''dbsnp'' data) (\<lambda>has_dbsnp.
               if has_dbsnp
               then ebind (py_getitem data ''dbsnp'') (\<lambda>dbsnp. py_in ''hg19'' dbsnp)
               else Inr False)) (\<lambda>has_hg19.
      ebind (if has_hg19
             then ebind (py_getitem data ''dbsnp'') (\<lambda>dbsnp.
                  ebind (py_getitem dbsnp ''hg19'') (\<lambda>hg19_data.
                  ebind (myvariant_coordinates hg19_data result) (\<lambda>result.
                  ebind (py_getitem data ''dbsnp'') (\<lambda>dbsnp'.
                    myvariant_alleles dbsnp' result))))
             else Inr result)
        return_if_located))"

definition get_hs37d5_loci_myvariant ::
  "network \<Rightarrow> string \<Rightarrow> (exn + loci option) \<times> event list" where
  "get_hs37d5_loci_myvariant net rsid0 =
     (let rsid = normalize_rsid rsid0 in
      except_request_exception ''MyVariant.info''
        (ebind (net (myvariant_request rsid)) (\<lambda>response.
           if status_code response = 404 then Inr None
           else ebind (check_status response) (\<lambda>_.
                ebind (json response) (\<lambda>data.
                  myvariant_parse rsid data)))))"

subsubsection \<open>Service B: the Ensembl REST API\<close>

definition ensembl_request :: "string \<Rightarrow> request" where
  "ensembl_request rsid =
     \<lparr>url = ''https://grch37.rest.ensembl.org/variation/human/'' @ rsid,
      params = [],
      headers = [(''Content-Type'', ''application/json'')],
      timeout = 10\<rparr>"

text \<open>
  \<^verbatim>\<open>mapping.get('seq_region_name', '').replace('chr', '')\<close>: only a string has
  the method \<^verbatim>\<open>replace\<close>.
\<close>

definition ensembl_chrom :: "pyval \<Rightarrow> exn + string" where
  "ensembl_chrom mapping =
     ebind (py_get mapping ''seq_region_name'' (PStr '''')) (\<lambda>name.
       case name of
         PStr s \<Rightarrow> Inr (py_replace s ''chr'' '''')
       | _ \<Rightarrow> Inl AttributeError)"

text \<open>
  \<^verbatim>\<open>mapping['allele_string'].split('/')\<close>: the first part is the reference allele,
  the others are the alternates. Only a string has the method \<^verbatim>\<open>split\<close>.
\<close>

definition ensembl_alleles :: "pyval \<Rightarrow> loci \<Rightarrow> exn + loci" where
  "ensembl_alleles mapping result =
     ebind (py_in ''allele_string'' mapping) (\<lambda>has_alleles.
       if has_alleles
       then ebind (py_getitem mapping ''allele_string'') (\<lambda>allele_string.
              case allele_string of
                PStr s \<Rightarrow>
                  (let alleles = py_split s CHR ''/'';
                       result = (if length alleles > 0
                                 then AList.update ''ref_allele'' (PStr (hd alleles)) result
                                 else result);
                       result = (if length alleles > 1
                                 then AList.update ''alt_alleles''
                                        (PList (map PStr (tl alleles))) result
                                 else result)
                   in Inr result)
              | _ \<Rightarrow> Inl AttributeError)
       else Inr result)"

definition ensembl_parse :: "string \<Rightarrow> pyval \<Rightarrow> exn + loci option" where
  "ensembl_parse rsid data =
     (let result = new_result rsid in
      ebind (ebind (py_in ''mappings'' data) (\<lambda>has_mappings.
               if has_mappings
               then ebind (py_getitem data ''mappings'') (\<lambda>mappings.
                    ebind (py_len mappings) (\<lambda>n. Inr (n > 0)))
               else Inr False)) (\<lambda>has_mapping.
      ebind (if has_mapping
             then ebind (py_getitem data ''mappings'') (\<lambda>mappings.
                  ebind (py_first mappings) (\<lambda>mapping.
                  ebind (ensembl_chrom mapping) (\<lambda>chrom.
                  let result = AList.update ''chromosome'' (PStr chrom) result in
                  ebind (py_get mapping ''start'' PNone) (\<lambda>start.
                  let result = AList.update ''position'' start result in
                    ensembl_alleles mapping result))))
             else Inr result)
        return_if_located))"

definition get_hs37d5_loci_ensembl ::
  "network \<Rightarrow> string \<Rightarrow> (exn + loci option) \<times> event list" where
  "get_hs37d5_loci_ensembl net rsid0 =
     (let rsid = normalize_rsid rsid0 in
      except_request_exception ''Ensembl''
        (ebind (net (ensembl_request rsid)) (\<lambda>response.
           if status_code response = 404 then Inr None
           else ebind (check_status response) (\<lambda>_.
                ebind (json response) (\<lambda>data.
                  ensembl_parse rsid data)))))"

subsection \<open>The resolver\<close>

text \<open>
  \<^verbatim>\<open>get_hs37d5_loci(rsid, method)\<close>. With \<^verbatim>\<open>'auto'\<close> the second service is asked
  when the first returned \<^verbatim>\<open>None\<close>; an exception of the first leaves the function.
\<close>

definition get_hs37d5_loci ::
  "network \<Rightarrow> string \<Rightarrow> string \<Rightarrow> (exn + loci option) \<times> event list" where
  "get_hs37d5_loci net rsid0 method =
     (let rsid = normalize_rsid rsid0 in
      if method = ''myvariant'' then get_hs37d5_loci_myvariant net rsid
      else if method = ''ensembl'' then get_hs37d5_loci_ensembl net rsid
      else if method = ''auto'' then
        (case get_hs37d5_loci_myvariant net rsid of
           (Inr None, out) \<Rightarrow>
             (case get_hs37d5_loci_ensembl net rsid of
                (result, out') \<Rightarrow> (result, out @ out'))
         | (result, out) \<Rightarrow> (result, out))
      else (Inl (ValueError (''Unknown method: '' @ method)), []))"

subsection \<open>The batch runner\<close>

text \<open>\<^verbatim>\<open>if result:\<close> on what a lookup returned: \<^verbatim>\<open>None\<close> and the empty dict are false.\<close>

definition found :: "loci option \<Rightarrow> bool" where
  "found result = (case result of None \<Rightarrow> False | Some d \<Rightarrow> truthy (PDict d))"

text \<open>
  The loop of \<^verbatim>\<open>batch_get_loci\<close>: \<open>n\<close> is \<^verbatim>\<open>len(rsid_list)\<close>, \<open>i\<close> the index
  of the next identifier, \<open>results\<close> the dict built so far. An exception of a lookup
  leaves the loop, with what was written before it.
\<close>

fun batch_loop ::
  "network \<Rightarrow> nat \<Rightarrow> real \<Rightarrow> string \<Rightarrow> nat \<Rightarrow> string list \<Rightarrow> (string \<times> loci) list
     \<Rightarrow> (exn + (string \<times> loci) list) \<times> event list" where
  "batch_loop net n delay method i [] results = (Inr results, [])"
| "batch_loop net n delay method i (rsid0 # rest) results =
     (let rsid = normalize_rsid rsid0 in
      case get_hs37d5_loci net rsid method of
        (Inl e, out) \<Rightarrow> (Inl e, out)
      | (Inr result, out) \<Rightarrow>
          (let (results', out1) =
                 (case result of
                    Some d \<Rightarrow>
                      if found result then (AList.update rsid d results, [])
                      else (results, [Print (''Could not find coordinates for '' @ rsid)])
                  | None \<Rightarrow> (results, [Print (''Could not find coordinates for '' @ rsid)]));
               out2 = (if delay > 0 \<and> int i < int n - 1 then [Sleep delay] else []);
               (final, out3) = batch_loop net n delay method (i + 1) rest results'
           in (final, out @ out1 @ out2 @ out3)))"

definition batch_get_loci ::
  "network \<Rightarrow> string list \<Rightarrow> real \<Rightarrow> string
     \<Rightarrow> (exn + (string \<times> loci) list) \<times> event list" where
  "batch_get_loci net rsid_list delay method =
     batch_loop net (length rsid_list) delay method 0 rsid_list []"

subsection \<open>The formatter\<close>

text \<open>
  \<^verbatim>\<open>format_loci(loci, style)\<close>. \<^verbatim>\<open>loci.get('ref_allele', 'N/A')\<close> gives the default
  only when the key is not in the dict; \<^verbatim>\<open>','.join(...) or 'N/A'\<close> gives it when the
  joined text is empty.
\<close>

definition format_loci :: "loci option \<Rightarrow> string \<Rightarrow> exn + string" where
  "format_loci loci style =
     (case loci of
        None \<Rightarrow> Inr ''Not found''
      | Some d \<Rightarrow>
          if \<not> found loci then Inr ''Not found''
          else
            ebind (item d ''chromosome'') (\<lambda>chrom.
            ebind (item d ''position'') (\<lambda>pos.
            ebind (py_get (PDict d) ''ref_allele'' (PStr ''N/A'')) (\<lambda>ref.
            ebind (py_get (PDict d) ''alt_alleles'' (PList [])) (\<lambda>alts.
            ebind (py_join '','' alts) (\<lambda>joined.
            let alt = (if joined = [] then ''N/A'' else joined) in
            if style = ''hs37d5''
            then Inr (py_str chrom @ '':'' @ py_str pos @ '' ('' @ py_str ref @ ''/'' @ alt @ '')'')
            else Inr (''chr'' @ py_str chrom @ '':'' @ py_str pos
                        @ '' ('' @ py_str ref @ ''/'' @ alt @ '')'')))))))"

subsection \<open>Auxiliary definitions for the statements\<close>

text \<open>
  The definitions of this subsection are not part of the program. They name the
  networks, payloads and records that the statements and their instances speak about.
\<close>

text \<open>The network that answers every request with the same response.\<close>

definition always :: "response \<Rightarrow> network" where
  "always r req = Inr r"

text \<open>
  The network that answers by URL, from a table; a request for any other URL fails
  with a connection error.
\<close>

definition route :: "(string \<times> (exn + response)) list \<Rightarrow> network" where
  "route table req =
     (case map_of table (url req) of
        Some outcome \<Rightarrow> outcome
      | None \<Rightarrow> Inl (RequestException ''connection refused''))"

text \<open>A response with status 200 and the given payload.\<close>

definition ok_response :: "pyval \<Rightarrow> response" where
  "ok_response data = \<lparr>status_code = 200, raise_for_status = None, json = Inr data\<rparr>"

text \<open>
  The payload \<^verbatim>\<open>{"dbsnp": {"hg19": {"chr": chr, "start": start}}}\<close> of service A and the
  payload \<^verbatim>\<open>{"mappings": [{"seq_region_name": name, "start": start}]}\<close> of service B.
\<close>

definition myvariant_payload :: "pyval \<Rightarrow> pyval \<Rightarrow> pyval" where
  "myvariant_payload chr start =
     PDict [(''dbsnp'', PDict [(''hg19'', PDict [(''chr'', chr), (''start'', start)])])]"

definition ensembl_payload :: "pyval \<Rightarrow> pyval \<Rightarrow> pyval" where
  "ensembl_payload name start =
     PDict [(''mappings'', PList [PDict [(''seq_region_name'', name), (''start'', start)]])]"

text \<open>
  A payload of service A in which \<^verbatim>\<open>data['dbsnp']['hg19']\<close> is \<open>v\<close>: the other keys
  of \<^verbatim>\<open>data\<close> are those of \<open>payload\<close>, the other keys of \<^verbatim>\<open>data['dbsnp']\<close> those
  of \<open>dbsnp\<close>.
\<close>

definition with_hg19 ::
  "pyval \<Rightarrow> (string \<times> pyval) list \<Rightarrow> (string \<times> pyval) list \<Rightarrow> pyval" where
  "with_hg19 v dbsnp payload =
     PDict (AList.update ''dbsnp'' (PDict (AList.update ''hg19'' v dbsnp)) payload)"

text \<open>A record with all its six keys.\<close>

definition located :: "string \<Rightarrow> pyval \<Rightarrow> pyval \<Rightarrow> pyval \<Rightarrow> pyval \<Rightarrow> loci" where
  "located rsid chrom pos ref alts =
     [(''rsid'', PStr rsid),
      (''chromosome'', chrom),
      (''position'', pos),
      (''ref_allele'', ref),
      (''alt_alleles'', alts),
      (''build'', PStr ''hs37d5'')]"

text \<open>The record both services return for \<^verbatim>\<open>rs1\<close> on the network below.\<close>

definition rs1_record :: loci where
  "rs1_record = located ''rs1'' (PStr ''1'') (PInt 100) PNone (PList [])"

text \<open>
  A network on which \<^verbatim>\<open>rs1\<close> is known to both services, at 1:100, and every other
  request fails with a connection error.
\<close>

definition example_net :: network where
  "example_net =
     route [(''https://myvariant.info/v1/variant/rs1'',
               Inr (ok_response (myvariant_payload (PStr ''chr1'') (PInt 100)))),
            (''https://grch37.rest.ensembl.org/variation/human/rs1'',
               Inr (ok_response (ensembl_payload (PStr ''1'') (PInt 100))))]"


text \<open>
  Removal of a leading \<^verbatim>\<open>chr\<close>, as the specification words the normalisation of
  chromosome names. The program does not use it; it is compared with what the program does.
\<close>

definition strip_chr_prefix :: "string \<Rightarrow> string" where
  "strip_chr_prefix name = (if startswith name ''chr'' then drop 3 name else name)"



declare py_replace.simps [simp del]
declare nat_digits.simps [simp del]

section \<open>Properties\<close>

subsection \<open>Sequencing and strings\<close>

lemma ebind_Inr_iff: "ebind m f = Inr y \<longleftrightarrow> (\<exists>x. m = Inr x \<and> f x = Inr y)"
  by (cases m) (simp_all add: ebind_def)

lemma ebind_Inr [simp]: "ebind (Inr x) f = f x"
  by (simp add: ebind_def)

lemma ebind_Inl [simp]: "ebind (Inl e) f = Inl e"
  by (simp add: ebind_def)

lemma startswith_append [simp]: "startswith (p @ s) p"
  by (simp add: startswith_def)

lemma normalize_rsid_startswith: "startswith (normalize_rsid rsid) ''rs''"
  unfolding normalize_rsid_def using startswith_append [of "''rs''" rsid] by simp

lemma normalize_rsid_fixed: "startswith rsid ''rs'' \<Longrightarrow> normalize_rsid rsid = rsid"
  by (simp add: normalize_rsid_def)

lemma normalize_twice: "normalize_rsid (normalize_rsid rsid) = normalize_rsid rsid"
  by (rule normalize_rsid_fixed) (rule normalize_rsid_startswith)

text \<open>Where the searched text does not occur, \<open>py_replace\<close> changes nothing.\<close>

lemma py_replace_absent:
  assumes "old \<noteq> []" and "\<not> str_contains s old"
  shows "py_replace s old new = s"
  using assms
proof (induction s)
  case Nil
  then show ?case by (simp add: py_replace.simps)
next
  case (Cons c cs)
  then have "\<not> startswith (c # cs) old" and "\<not> str_contains cs old"
    by simp_all
  with Cons show ?case
    by (subst py_replace.simps) simp
qed

lemma py_replace_prefix:
  assumes "old \<noteq> []"
  shows "py_replace (old @ s) old new = new @ py_replace s old new"
  using assms by (subst py_replace.simps) simp

lemma replace_chr_absent:
  "\<not> str_contains name ''chr'' \<Longrightarrow> py_replace name ''chr'' '''' = name"
  by (rule py_replace_absent) simp_all

lemma replace_chr_prefix:
  "\<not> str_contains rest ''chr'' \<Longrightarrow> py_replace (''chr'' @ rest) ''chr'' '''' = rest"
  using py_replace_prefix [of "''chr''" rest "''''"] by (simp add: replace_chr_absent)

subsection \<open>Lookups do not depend on the prefix of the identifier\<close>

lemma myvariant_normalized:
  "get_hs37d5_loci_myvariant net (normalize_rsid rsid) = get_hs37d5_loci_myvariant net rsid"
  by (simp add: get_hs37d5_loci_myvariant_def normalize_twice)

lemma ensembl_normalized:
  "get_hs37d5_loci_ensembl net (normalize_rsid rsid) = get_hs37d5_loci_ensembl net rsid"
  by (simp add: get_hs37d5_loci_ensembl_def normalize_twice)


subsection \<open>What a returned record went through\<close>

lemma return_if_located_Some:
  assumes "return_if_located result = Inr (Some r)"
  shows "r = result \<and> (\<exists>c p. map_of r ''chromosome'' = Some c \<and> truthy c
                          \<and> map_of r ''position'' = Some p \<and> truthy p)"
  using assms
  by (auto simp: return_if_located_def item_def ebind_def
           split: option.splits if_splits sum.splits)

lemma return_if_located_result: "return_if_located result = Inr (Some r) \<Longrightarrow> r = result"
  by (simp add: return_if_located_Some)

lemma return_if_located_None:
  assumes "map_of result ''chromosome'' = Some c" and "map_of result ''position'' = Some p"
    and "\<not> truthy c \<or> \<not> truthy p"
  shows "return_if_located result = Inr None"
  using assms by (auto simp: return_if_located_def item_def)

lemma myvariant_parse_Some:
  assumes "myvariant_parse rsid data = Inr (Some r)"
  shows "\<exists>c p. map_of r ''chromosome'' = Some c \<and> truthy c
               \<and> map_of r ''position'' = Some p \<and> truthy p"
  using assms unfolding myvariant_parse_def Let_def ebind_Inr_iff
  by (blast dest: return_if_located_Some)

lemma ensembl_parse_Some:
  assumes "ensembl_parse rsid data = Inr (Some r)"
  shows "\<exists>c p. map_of r ''chromosome'' = Some c \<and> truthy c
               \<and> map_of r ''position'' = Some p \<and> truthy p"
  using assms unfolding ensembl_parse_def Let_def ebind_Inr_iff
  by (blast dest: return_if_located_Some)

lemma except_request_exception_Some:
  "fst (except_request_exception api body) = Inr (Some r) \<longleftrightarrow> body = Inr (Some r)"
  by (auto simp: except_request_exception_def split: sum.splits exn.splits)

text \<open>A record comes from a response whose payload was decoded and parsed.\<close>

lemma myvariant_Some:
  assumes "fst (get_hs37d5_loci_myvariant net rsid) = Inr (Some r)"
  shows "\<exists>response data. net (myvariant_request (normalize_rsid rsid)) = Inr response
           \<and> json response = Inr data
           \<and> myvariant_parse (normalize_rsid rsid) data = Inr (Some r)"
  using assms
  unfolding get_hs37d5_loci_myvariant_def Let_def except_request_exception_Some ebind_Inr_iff
  by (auto split: if_splits simp: ebind_Inr_iff)

lemma ensembl_Some:
  assumes "fst (get_hs37d5_loci_ensembl net rsid) = Inr (Some r)"
  shows "\<exists>response data. net (ensembl_request (normalize_rsid rsid)) = Inr response
           \<and> json response = Inr data
           \<and> ensembl_parse (normalize_rsid rsid) data = Inr (Some r)"
  using assms
  unfolding get_hs37d5_loci_ensembl_def Let_def except_request_exception_Some ebind_Inr_iff
  by (auto split: if_splits simp: ebind_Inr_iff)

lemma truthy_not_None: "truthy v \<Longrightarrow> v \<noteq> PNone"
  by auto

lemma service_record_located:
  assumes "fst (get_hs37d5_loci_myvariant net rsid) = Inr (Some r)
         \<or> fst (get_hs37d5_loci_ensembl net rsid) = Inr (Some r)"
  shows "\<exists>c p. map_of r ''chromosome'' = Some c \<and> truthy c
               \<and> map_of r ''position'' = Some p \<and> truthy p"
  using assms
proof
  assume "fst (get_hs37d5_loci_myvariant net rsid) = Inr (Some r)"
  then show ?thesis by (blast dest: myvariant_Some myvariant_parse_Some)
next
  assume "fst (get_hs37d5_loci_ensembl net rsid) = Inr (Some r)"
  then show ?thesis by (blast dest: ensembl_Some ensembl_parse_Some)
qed



subsection \<open>The chromosome of a returned record\<close>

lemma myvariant_coordinates_singleton:
  "myvariant_coordinates (PList [PDict m]) result = myvariant_coordinates (PDict m) result"
  by (simp add: myvariant_coordinates_def)

lemma myvariant_alleles_hg19:
  "myvariant_alleles (PDict (AList.update ''hg19'' v dbsnp)) result
     = myvariant_alleles (PDict dbsnp) result"
  unfolding myvariant_alleles_def by (simp add: AList.dom_update AList.update_conv')

lemma myvariant_parse_with_hg19:
  "myvariant_parse rsid (with_hg19 v dbsnp payload) =
     ebind (ebind (myvariant_coordinates v (new_result rsid)) (myvariant_alleles (PDict dbsnp)))
       return_if_located"
  unfolding myvariant_parse_def with_hg19_def Let_def
  by (simp add: myvariant_alleles_hg19 AList.dom_update AList.update_conv')

lemma myvariant_alleles_chromosome:
  assumes "myvariant_alleles dbsnp result = Inr result'"
  shows "map_of result' ''chromosome'' = map_of result ''chromosome''"
  using assms unfolding myvariant_alleles_def
  by (auto simp: ebind_Inr_iff AList.update_conv' split: if_splits)

lemma myvariant_coordinates_chromosome:
  assumes "myvariant_coordinates hg19 result = Inr result'"
    and "py_getitem hg19 ''chr'' = Inr (PStr name)
         \<or> (\<exists>xs. hg19 = PList xs) \<and> py_first hg19 = Inr first
             \<and> py_getitem first ''chr'' = Inr (PStr name)"
  shows "map_of result' ''chromosome'' = Some (PStr (py_replace name ''chr'' ''''))"
proof -
  have dict: "map_of result' ''chromosome'' = Some (PStr (py_replace name ''chr'' ''''))"
    if "myvariant_coordinates (PDict m) result = Inr result'"
      "py_getitem (PDict m) ''chr'' = Inr (PStr name)" for m
    using that unfolding myvariant_coordinates_def
    by (auto simp: ebind_Inr_iff AList.update_conv' py_str_def split: option.splits)
  from assms(2) show ?thesis
  proof
    assume chr: "py_getitem hg19 ''chr'' = Inr (PStr name)"
    then obtain m where "hg19 = PDict m" by (cases hg19) simp_all
    with assms(1) chr show ?thesis by (simp add: dict)
  next
    assume "(\<exists>xs. hg19 = PList xs) \<and> py_first hg19 = Inr first
              \<and> py_getitem first ''chr'' = Inr (PStr name)"
    then obtain xs where xs: "hg19 = PList xs" and first: "py_first hg19 = Inr first"
      and chr: "py_getitem first ''chr'' = Inr (PStr name)" by blast
    from chr obtain m where m: "first = PDict m" by (cases first) simp_all
    from xs first obtain others where others: "xs = first # others"
      by (cases xs) simp_all
    from assms(1) have "myvariant_coordinates (PDict m) result = Inr result'"
      unfolding xs others m myvariant_coordinates_def by simp
    with chr m show ?thesis by (simp add: dict)
  qed
qed

lemma py_first_dict_is_list:
  assumes "py_first v = Inr first" and "py_getitem first key = Inr x"
  shows "\<exists>xs. v = PList xs"
proof (cases v)
  case (PStr s)
  with assms show ?thesis by (cases s) auto
qed (use assms in simp_all)

lemma myvariant_parse_chromosome:
  assumes "myvariant_parse rsid data = Inr (Some r)"
    and "py_getitem data ''dbsnp'' = Inr dbsnp" and "py_getitem dbsnp ''hg19'' = Inr hg19"
    and "py_getitem hg19 ''chr'' = Inr (PStr name)
         \<or> (\<exists>xs. hg19 = PList xs) \<and> py_first hg19 = Inr first
             \<and> py_getitem first ''chr'' = Inr (PStr name)"
  shows "map_of r ''chromosome'' = Some (PStr (py_replace name ''chr'' ''''))"
proof -
  from assms(2) obtain kvs where data: "data = PDict kvs" by (cases data) simp_all
  from assms(3) obtain d where dbsnp: "dbsnp = PDict d" by (cases dbsnp) simp_all
  from assms(2) data have in1: "py_in ''dbsnp'' data = Inr True"
    by (auto split: option.splits dest: map_of_SomeD intro: rev_image_eqI)
  from assms(3) dbsnp have in2: "py_in ''hg19'' dbsnp = Inr True"
    by (auto split: option.splits dest: map_of_SomeD intro: rev_image_eqI)
  from assms(1) obtain result1 result2
    where c: "myvariant_coordinates hg19 (new_result rsid) = Inr result1"
      and a: "myvariant_alleles dbsnp result1 = Inr result2"
      and l: "return_if_located result2 = Inr (Some r)"
    unfolding myvariant_parse_def Let_def
    by (auto simp: in1 in2 assms(2,3) ebind_Inr_iff)
  from l have "r = result2" by (rule return_if_located_result)
  with myvariant_alleles_chromosome [OF a] myvariant_coordinates_chromosome [OF c assms(4)]
  show ?thesis by simp
qed

lemma ensembl_alleles_chromosome:
  assumes "ensembl_alleles mapping result = Inr result'"
  shows "map_of result' ''chromosome'' = map_of result ''chromosome''"
proof (cases "py_in ''allele_string'' mapping")
  case (Inl e)
  with assms show ?thesis by (simp add: ensembl_alleles_def)
next
  case (Inr has_alleles)
  show ?thesis
  proof (cases has_alleles)
    case False
    with Inr assms show ?thesis by (simp add: ensembl_alleles_def)
  next
    case True
    show ?thesis
    proof (cases "py_getitem mapping ''allele_string''")
      case (Inl e)
      with Inr True assms show ?thesis by (simp add: ensembl_alleles_def)
    next
      case item: (Inr allele_string)
      show ?thesis
      proof (cases allele_string)
        case (PStr s)
        with Inr True item assms
        have "result' =
               (let alleles = py_split s CHR ''/'';
                    result = (if length alleles > 0
                              then AList.update ''ref_allele'' (PStr (hd alleles)) result
                              else result)
                in if length alleles > 1
                   then AList.update ''alt_alleles'' (PList (map PStr (tl alleles))) result
                   else result)"
          by (simp add: ensembl_alleles_def Let_def)
        then show ?thesis
          by (simp add: Let_def AList.update_conv')
      qed (use Inr True item assms in \<open>simp_all add: ensembl_alleles_def\<close>)
    qed
  qed
qed

lemma ensembl_parse_chromosome:
  assumes "ensembl_parse rsid data = Inr (Some r)"
    and "py_getitem data ''mappings'' = Inr mappings" and "py_first mappings = Inr mapping"
    and "py_getitem mapping ''seq_region_name'' = Inr (PStr name)"
  shows "map_of r ''chromosome'' = Some (PStr (py_replace name ''chr'' ''''))"
proof -
  from assms(2) obtain kvs where data: "data = PDict kvs" by (cases data) simp_all
  from assms(4) obtain m where m: "mapping = PDict m" by (cases mapping) simp_all
  from assms(2) data have in1: "py_in ''mappings'' data = Inr True"
    by (auto split: option.splits dest: map_of_SomeD intro: rev_image_eqI)
  from assms(3) have len: "\<exists>n. py_len mappings = Inr n \<and> n > 0"
    by (cases mappings) (auto split: list.splits)
  from assms(4) m have chrom: "ensembl_chrom mapping = Inr (py_replace name ''chr'' '''')"
    by (auto simp: ensembl_chrom_def split: option.splits)
  from assms(1) obtain start result2
    where a: "ensembl_alleles mapping
                (AList.update ''position'' start
                  (AList.update ''chromosome'' (PStr (py_replace name ''chr'' ''''))
                    (new_result rsid))) = Inr result2"
      and l: "return_if_located result2 = Inr (Some r)"
    unfolding ensembl_parse_def Let_def using len
    by (auto simp: in1 assms(2,3) chrom ebind_Inr_iff)
  from l have "r = result2" by (rule return_if_located_result)
  with ensembl_alleles_chromosome [OF a] show ?thesis
    by (simp add: AList.update_conv')
qed

subsection \<open>Exceptions of the formatter\<close>

lemma item_no_ValueError: "item d key \<noteq> Inl (ValueError msg)"
  by (simp add: item_def split: option.splits)

lemma str_items_error: "str_items vs = Inl e \<Longrightarrow> e = TypeError"
  by (induction vs rule: str_items.induct) (auto simp: ebind_def split: sum.splits)

lemma py_join_error: "py_join sep v = Inl e \<Longrightarrow> e = TypeError"
  by (cases v) (auto simp: ebind_def split: sum.splits dest: str_items_error)

subsection \<open>The loop of the batch runner\<close>





subsection \<open>Failed requests\<close>






subsection \<open>Evaluation on concrete inputs\<close>

lemmas eval_defs =
  get_hs37d5_loci_myvariant_def get_hs37d5_loci_ensembl_def get_hs37d5_loci_def
  myvariant_parse_def ensembl_parse_def myvariant_coordinates_def myvariant_alleles_def
  ensembl_chrom_def ensembl_alleles_def return_if_located_def item_def new_result_def
  except_request_exception_def check_status_def normalize_rsid_def startswith_def
  myvariant_request_def ensembl_request_def always_def ok_response_def route_def
  myvariant_payload_def ensembl_payload_def located_def rs1_record_def example_net_def
  py_str_def Let_def

lemmas format_defs =
  format_loci_def found_def item_def located_def rs1_record_def py_str_def str_int_def
  nat_digits.simps Let_def

lemma example_net_myvariant:
  "get_hs37d5_loci_myvariant example_net ''rs1'' = (Inr (Some rs1_record), [])"
  by (simp add: eval_defs py_replace.simps)

lemma example_net_ensembl:
  "get_hs37d5_loci_ensembl example_net ''rs1'' = (Inr (Some rs1_record), [])"
  by (simp add: eval_defs py_replace.simps)

text \<open>
  A batch on the example network, with what it writes and when it waits: \<^verbatim>\<open>2\<close> becomes
  \<^verbatim>\<open>rs2\<close>, both services fail for it, and nothing is waited after the last identifier.
\<close>

lemma batch_example:
  "batch_get_loci example_net [''rs1'', ''2''] (1 / 5) ''auto'' =
     (Inr [(''rs1'', rs1_record)],
      [Sleep (1 / 5),
       Print ''Error with MyVariant.info API: connection refused'',
       Print ''Error with Ensembl API: connection refused'',
       Print ''Could not find coordinates for rs2''])"
  by (simp add: batch_get_loci_def eval_defs found_def py_replace.simps)




section \<open>The claims\<close>

subsection \<open>C1: a missing reference allele in the formatter\<close>

text \<open>
  C1 says that a record whose \<^verbatim>\<open>ref_allele\<close> is missing, as in every record a service
  builds before a reference allele is supplied, is rendered with \<^verbatim>\<open>N/A\<close> in the place
  of the reference allele, in both styles. The program does not do that: the services
  build the record with the key \<^verbatim>\<open>ref_allele\<close> bound to \<^verbatim>\<open>None\<close>, the default of
  \<^verbatim>\<open>loci.get('ref_allele', 'N/A')\<close> applies only when the key is not in the dict, and
  the formatter writes \<^verbatim>\<open>None\<close>. The theorem runs service A on the payload
  \<^verbatim>\<open>{"dbsnp": {"hg19": {"chr": "1", "start": 100}}}\<close> and formats the record it returns.
  The empty list of alternates of the same record is rendered as \<^verbatim>\<open>N/A\<close>.
\<close>

theorem missing_ref_allele_renders_None:
  "fst (get_hs37d5_loci_myvariant
          (always (ok_response
             (PDict [(''dbsnp'',
                PDict [(''hg19'', PDict [(''chr'', PStr ''1''), (''start'', PInt 100)])])])))
          ''rs1'')
     = Inr (Some [(''rsid'', PStr ''rs1''), (''chromosome'', PStr ''1''),
                  (''position'', PInt 100), (''ref_allele'', PNone),
                  (''alt_alleles'', PList []), (''build'', PStr ''hs37d5'')])
   \<and> format_loci
        (Some [(''rsid'', PStr ''rs1''), (''chromosome'', PStr ''1''),
               (''position'', PInt 100), (''ref_allele'', PNone),
               (''alt_alleles'', PList []), (''build'', PStr ''hs37d5'')])
        ''hs37d5''
     = Inr ''1:100 (None/N/A)''
   \<and> format_loci
        (Some [(''rsid'', PStr ''rs1''), (''chromosome'', PStr ''1''),
               (''position'', PInt 100), (''ref_allele'', PNone),
               (''alt_alleles'', PList []), (''build'', PStr ''hs37d5'')])
        ''standard''
     = Inr ''chr1:100 (None/N/A)''"
  by (simp add: eval_defs format_defs py_replace.simps)

subsection \<open>C2: a service never returns a partial record\<close>

text \<open>
  C2: whatever the network answers, a record returned by service A or by service B has
  both its chromosome and its position, neither of them \<^verbatim>\<open>None\<close>; and a record in
  which one of the two is \<^verbatim>\<open>None\<close> is not returned: the lookup returns \<^verbatim>\<open>None\<close>.
\<close>

theorem services_never_partial:
  "(fst (get_hs37d5_loci_myvariant net rsid) = Inr (Some ra) \<longrightarrow>
      (\<exists>c p. map_of ra ''chromosome'' = Some c \<and> c \<noteq> PNone
             \<and> map_of ra ''position'' = Some p \<and> p \<noteq> PNone))
   \<and> (fst (get_hs37d5_loci_ensembl net rsid) = Inr (Some rb) \<longrightarrow>
      (\<exists>c p. map_of rb ''chromosome'' = Some c \<and> c \<noteq> PNone
             \<and> map_of rb ''position'' = Some p \<and> p \<noteq> PNone))
   \<and> (map_of result ''chromosome'' = Some c' \<and> map_of result ''position'' = Some p'
        \<and> (c' = PNone \<or> p' = PNone) \<longrightarrow> return_if_located result = Inr None)"
proof (intro conjI impI)
  assume "fst (get_hs37d5_loci_myvariant net rsid) = Inr (Some ra)"
  with service_record_located [of net rsid ra]
  show "\<exists>c p. map_of ra ''chromosome'' = Some c \<and> c \<noteq> PNone
             \<and> map_of ra ''position'' = Some p \<and> p \<noteq> PNone"
    by (auto dest: truthy_not_None)
next
  assume "fst (get_hs37d5_loci_ensembl net rsid) = Inr (Some rb)"
  with service_record_located [of net rsid rb]
  show "\<exists>c p. map_of rb ''chromosome'' = Some c \<and> c \<noteq> PNone
             \<and> map_of rb ''position'' = Some p \<and> p \<noteq> PNone"
    by (auto dest: truthy_not_None)
next
  assume "map_of result ''chromosome'' = Some c' \<and> map_of result ''position'' = Some p'
        \<and> (c' = PNone \<or> p' = PNone)"
  then show "return_if_located result = Inr None"
    by (intro return_if_located_None [of result c' p']) auto
qed

text \<open>
  On the example network both services return the record of \<^verbatim>\<open>rs1\<close>; a record with a
  chromosome and no position is not returned, and neither is the answer of service B
  when its mapping has no \<^verbatim>\<open>start\<close>.
\<close>

theorem services_never_partial_witness:
  "fst (get_hs37d5_loci_myvariant example_net ''rs1'') = Inr (Some rs1_record)
   \<and> fst (get_hs37d5_loci_ensembl example_net ''rs1'') = Inr (Some rs1_record)
   \<and> map_of rs1_record ''chromosome'' = Some (PStr ''1'')
   \<and> map_of rs1_record ''position'' = Some (PInt 100)
   \<and> (\<exists>c p. map_of rs1_record ''chromosome'' = Some c \<and> c \<noteq> PNone
             \<and> map_of rs1_record ''position'' = Some p \<and> p \<noteq> PNone)
   \<and> return_if_located (located ''rs1'' (PStr ''1'') PNone PNone (PList [])) = Inr None
   \<and> fst (get_hs37d5_loci_ensembl
            (always (ok_response
               (PDict [(''mappings'', PList [PDict [(''seq_region_name'', PStr ''1'')]])])))
            ''rs1'')
       = Inr None"
proof -
  have a: "fst (get_hs37d5_loci_myvariant example_net ''rs1'') = Inr (Some rs1_record)"
    by (simp add: example_net_myvariant)
  have b: "fst (get_hs37d5_loci_ensembl example_net ''rs1'') = Inr (Some rs1_record)"
    by (simp add: example_net_ensembl)
  have c: "map_of (located ''rs1'' (PStr ''1'') PNone PNone (PList [])) ''chromosome''
             = Some (PStr ''1'')
           \<and> map_of (located ''rs1'' (PStr ''1'') PNone PNone (PList [])) ''position''
             = Some PNone
           \<and> (PStr ''1'' = PNone \<or> (PNone :: pyval) = PNone)"
    by (simp add: located_def)
  have d: "fst (get_hs37d5_loci_ensembl
            (always (ok_response
               (PDict [(''mappings'', PList [PDict [(''seq_region_name'', PStr ''1'')]])])))
            ''rs1'')
       = Inr None"
    by (simp add: eval_defs py_replace.simps)
  have e: "map_of rs1_record ''chromosome'' = Some (PStr ''1'')
           \<and> map_of rs1_record ''position'' = Some (PInt 100)"
    by (simp add: rs1_record_def located_def)
  from services_never_partial
         [of example_net "''rs1''" rs1_record rs1_record
             "located ''rs1'' (PStr ''1'') PNone PNone (PList [])" "PStr ''1''" PNone]
       a b c d e
  show ?thesis by blast
qed

subsection \<open>C3: the automatic method\<close>

text \<open>
  C3: with the method \<^verbatim>\<open>auto\<close> the resolver returns what service A returns when that
  is a record, and what service B returns when service A returned \<^verbatim>\<open>None\<close>; so its
  result is \<^verbatim>\<open>None\<close> exactly when both services return \<^verbatim>\<open>None\<close>. (An exception of
  service A other than a request exception leaves the resolver; service B is not asked.)
\<close>

theorem auto_first_success:
  "fst (get_hs37d5_loci net rsid ''auto'') =
     (case fst (get_hs37d5_loci_myvariant net rsid) of
        Inr None \<Rightarrow> fst (get_hs37d5_loci_ensembl net rsid)
      | first \<Rightarrow> first)
   \<and> (fst (get_hs37d5_loci net rsid ''auto'') = Inr None \<longleftrightarrow>
        fst (get_hs37d5_loci_myvariant net rsid) = Inr None
        \<and> fst (get_hs37d5_loci_ensembl net rsid) = Inr None)"
proof -
  obtain a outa where a: "get_hs37d5_loci_myvariant net rsid = (a, outa)"
    by (cases "get_hs37d5_loci_myvariant net rsid")
  obtain b outb where b: "get_hs37d5_loci_ensembl net rsid = (b, outb)"
    by (cases "get_hs37d5_loci_ensembl net rsid")
  have auto: "fst (get_hs37d5_loci net rsid ''auto'') = (case a of Inr None \<Rightarrow> b | first \<Rightarrow> first)"
    by (simp add: get_hs37d5_loci_def myvariant_normalized ensembl_normalized a b
        split: sum.splits option.splits)
  show ?thesis
    unfolding auto by (simp add: a b split: sum.splits option.splits)
qed

subsection \<open>C4: an unknown method\<close>

text \<open>
  C4: for a method other than \<^verbatim>\<open>myvariant\<close>, \<^verbatim>\<open>ensembl\<close> and \<^verbatim>\<open>auto\<close> the resolver
  raises \<^verbatim>\<open>ValueError\<close>, the program's invalid-argument error, before any request is
  made or anything is written; and the batch runner does not catch it: on a list that is
  not empty it ends with the same exception.
\<close>

theorem invalid_method_raises:
  assumes "method \<noteq> ''myvariant''" and "method \<noteq> ''ensembl''" and "method \<noteq> ''auto''"
  shows "get_hs37d5_loci net rsid method = (Inl (ValueError (''Unknown method: '' @ method)), [])
       \<and> batch_get_loci net (rsid # rest) delay method
           = (Inl (ValueError (''Unknown method: '' @ method)), [])"
  using assms by (simp add: get_hs37d5_loci_def batch_get_loci_def)

theorem invalid_method_raises_witness:
  "get_hs37d5_loci example_net ''rs1'' ''fastest''
     = (Inl (ValueError ''Unknown method: fastest''), [])
   \<and> batch_get_loci example_net [''rs1'', ''rs2''] (1 / 5) ''fastest''
     = (Inl (ValueError ''Unknown method: fastest''), [])"
  using invalid_method_raises [of "''fastest''" example_net "''rs1''" "[''rs2'']" "1 / 5"]
  by simp

subsection \<open>C5: the batch runner and the failures it survives\<close>




subsection \<open>C6: normalising an identifier twice\<close>

text \<open>
  C6: putting \<^verbatim>\<open>rs\<close> before an identifier that does not start with it is idempotent:
  the second application changes nothing, for every string.
\<close>

theorem normalize_rsid_idempotent:
  "normalize_rsid (normalize_rsid rsid) = normalize_rsid rsid"
  by (rule normalize_rsid_fixed) (rule normalize_rsid_startswith)

subsection \<open>C7: an object or a list of one object\<close>

text \<open>
  C7: in a payload of service A, let the value of \<^verbatim>\<open>data['dbsnp']['hg19']\<close> be an
  object \<open>m\<close>, or the list whose only element is \<open>m\<close>, everything else in the
  payload being the same. Parsing gives the same result in both cases, and so does the
  lookup on a network that answers with the one payload or the other: the same record,
  with the same chromosome and position, or \<^verbatim>\<open>None\<close>, or the same exception.
\<close>

theorem myvariant_object_or_singleton:
  "myvariant_parse rsid (with_hg19 (PList [PDict m]) dbsnp payload)
     = myvariant_parse rsid (with_hg19 (PDict m) dbsnp payload)
   \<and> get_hs37d5_loci_myvariant
        (always (response\<lparr>json := Inr (with_hg19 (PList [PDict m]) dbsnp payload)\<rparr>)) rsid
     = get_hs37d5_loci_myvariant
        (always (response\<lparr>json := Inr (with_hg19 (PDict m) dbsnp payload)\<rparr>)) rsid"
  by (simp add: myvariant_parse_with_hg19 myvariant_coordinates_singleton
      get_hs37d5_loci_myvariant_def always_def check_status_def)

subsection \<open>C8: the chromosome name and its \<^verbatim>\<open>chr\<close>\<close>

text \<open>
  C8 says that the chromosome of a returned record is the name the service sent with its
  leading \<^verbatim>\<open>chr\<close> removed, and that a name not starting with \<^verbatim>\<open>chr\<close> is returned
  unchanged. As stated this fails: both services apply \<^verbatim>\<open>.replace('chr', '')\<close>, which
  removes \<^verbatim>\<open>chr\<close> wherever it occurs. The name \<^verbatim>\<open>1chr\<close> does not start with
  \<^verbatim>\<open>chr\<close>, and both services return the chromosome \<^verbatim>\<open>1\<close> for it.
\<close>

theorem chromosome_prefix_counterexample:
  "fst (get_hs37d5_loci_ensembl
          (always (ok_response
             (PDict [(''mappings'',
                PList [PDict [(''seq_region_name'', PStr ''1chr''), (''start'', PInt 100)]])])))
          ''rs1'')
     = Inr (Some [(''rsid'', PStr ''rs1''), (''chromosome'', PStr ''1''),
                  (''position'', PInt 100), (''ref_allele'', PNone),
                  (''alt_alleles'', PList []), (''build'', PStr ''hs37d5'')])
   \<and> fst (get_hs37d5_loci_myvariant
          (always (ok_response
             (PDict [(''dbsnp'',
                PDict [(''hg19'', PDict [(''chr'', PStr ''1chr''), (''start'', PInt 100)])])])))
          ''rs1'')
     = Inr (Some [(''rsid'', PStr ''rs1''), (''chromosome'', PStr ''1''),
                  (''position'', PInt 100), (''ref_allele'', PNone),
                  (''alt_alleles'', PList []), (''build'', PStr ''hs37d5'')])
   \<and> \<not> startswith ''1chr'' ''chr''
   \<and> strip_chr_prefix ''1chr'' = ''1chr''
   \<and> ''1'' \<noteq> strip_chr_prefix ''1chr''"
  by (simp add: eval_defs py_replace.simps strip_chr_prefix_def)

text \<open>
  C8 as amended: the chromosome of a returned record is the name the service sent with
  every occurrence of \<^verbatim>\<open>chr\<close> removed, as \<^verbatim>\<open>str.replace\<close> removes them (from left to
  right, without overlap). For service A the name is \<^verbatim>\<open>data['dbsnp']['hg19']['chr']\<close>
  or \<^verbatim>\<open>data['dbsnp']['hg19'][0]['chr']\<close>, for service B
  \<^verbatim>\<open>data['mappings'][0]['seq_region_name']\<close>. A name in which \<^verbatim>\<open>chr\<close> does not occur
  is returned unchanged, and a name that is \<^verbatim>\<open>chr\<close> followed by a text in which
  \<^verbatim>\<open>chr\<close> does not occur is returned without its prefix.
\<close>

theorem chromosome_is_name_without_chr:
  "(net (myvariant_request (normalize_rsid rsid)) = Inr response_a
      \<and> json response_a = Inr data_a
      \<and> fst (get_hs37d5_loci_myvariant net rsid) = Inr (Some ra)
      \<and> py_getitem data_a ''dbsnp'' = Inr dbsnp \<and> py_getitem dbsnp ''hg19'' = Inr hg
      \<and> (py_getitem hg ''chr'' = Inr (PStr name_a)
          \<or> py_first hg = Inr first \<and> py_getitem first ''chr'' = Inr (PStr name_a))
      \<longrightarrow> map_of ra ''chromosome'' = Some (PStr (py_replace name_a ''chr'' '''')))
   \<and> (net (ensembl_request (normalize_rsid rsid)) = Inr response_b
      \<and> json response_b = Inr data_b
      \<and> fst (get_hs37d5_loci_ensembl net rsid) = Inr (Some rb)
      \<and> py_getitem data_b ''mappings'' = Inr mappings \<and> py_first mappings = Inr mapping
      \<and> py_getitem mapping ''seq_region_name'' = Inr (PStr name_b)
      \<longrightarrow> map_of rb ''chromosome'' = Some (PStr (py_replace name_b ''chr'' '''')))
   \<and> (\<not> str_contains name ''chr'' \<longrightarrow> py_replace name ''chr'' '''' = name)
   \<and> (\<not> str_contains rest ''chr'' \<longrightarrow> py_replace (''chr'' @ rest) ''chr'' '''' = rest)"
proof (intro conjI impI)
  assume a: "net (myvariant_request (normalize_rsid rsid)) = Inr response_a
      \<and> json response_a = Inr data_a
      \<and> fst (get_hs37d5_loci_myvariant net rsid) = Inr (Some ra)
      \<and> py_getitem data_a ''dbsnp'' = Inr dbsnp \<and> py_getitem dbsnp ''hg19'' = Inr hg
      \<and> (py_getitem hg ''chr'' = Inr (PStr name_a)
          \<or> py_first hg = Inr first \<and> py_getitem first ''chr'' = Inr (PStr name_a))"
  then have parse: "myvariant_parse (normalize_rsid rsid) data_a = Inr (Some ra)"
    using myvariant_Some [of net rsid ra] by auto
  from a have "py_getitem hg ''chr'' = Inr (PStr name_a)
         \<or> (\<exists>xs. hg = PList xs) \<and> py_first hg = Inr first
             \<and> py_getitem first ''chr'' = Inr (PStr name_a)"
    using py_first_dict_is_list [of hg first "''chr''" "PStr name_a"] by blast
  with parse a show "map_of ra ''chromosome'' = Some (PStr (py_replace name_a ''chr'' ''''))"
    by (intro myvariant_parse_chromosome [of _ data_a ra dbsnp hg name_a first]) simp_all
next
  assume a: "net (ensembl_request (normalize_rsid rsid)) = Inr response_b
      \<and> json response_b = Inr data_b
      \<and> fst (get_hs37d5_loci_ensembl net rsid) = Inr (Some rb)
      \<and> py_getitem data_b ''mappings'' = Inr mappings \<and> py_first mappings = Inr mapping
      \<and> py_getitem mapping ''seq_region_name'' = Inr (PStr name_b)"
  then have parse: "ensembl_parse (normalize_rsid rsid) data_b = Inr (Some rb)"
    using ensembl_Some [of net rsid rb] by auto
  with a show "map_of rb ''chromosome'' = Some (PStr (py_replace name_b ''chr'' ''''))"
    by (intro ensembl_parse_chromosome [of _ data_b rb mappings mapping name_b]) simp_all
next
  assume "\<not> str_contains name ''chr''"
  then show "py_replace name ''chr'' '''' = name" by (rule replace_chr_absent)
next
  assume "\<not> str_contains rest ''chr''"
  then show "py_replace (''chr'' @ rest) ''chr'' '''' = rest" by (rule replace_chr_prefix)
qed

text \<open>
  On the example network service A is sent \<^verbatim>\<open>chr1\<close> and service B \<^verbatim>\<open>1\<close>; both
  records have the chromosome \<^verbatim>\<open>1\<close>.
\<close>

theorem chromosome_is_name_without_chr_witness:
  "fst (get_hs37d5_loci_myvariant example_net ''rs1'') = Inr (Some rs1_record)
   \<and> fst (get_hs37d5_loci_ensembl example_net ''rs1'') = Inr (Some rs1_record)
   \<and> map_of rs1_record ''chromosome'' = Some (PStr (py_replace ''chr1'' ''chr'' ''''))
   \<and> map_of rs1_record ''chromosome'' = Some (PStr (py_replace ''1'' ''chr'' ''''))
   \<and> py_replace ''chr1'' ''chr'' '''' = ''1''
   \<and> \<not> str_contains ''MT'' ''chr'' \<and> py_replace ''MT'' ''chr'' '''' = ''MT''
   \<and> \<not> str_contains ''X'' ''chr'' \<and> py_replace (''chr'' @ ''X'') ''chr'' '''' = ''X''"
proof -
  let ?pa = "myvariant_payload (PStr ''chr1'') (PInt 100)"
  let ?pb = "ensembl_payload (PStr ''1'') (PInt 100)"
  let ?hg = "PDict [(''chr'', PStr ''chr1''), (''start'', PInt 100)]"
  let ?mapping = "PDict [(''seq_region_name'', PStr ''1''), (''start'', PInt 100)]"
  have a: "net (myvariant_request (normalize_rsid ''rs1'')) = Inr (ok_response ?pa)
      \<and> json (ok_response ?pa) = Inr ?pa
      \<and> fst (get_hs37d5_loci_myvariant net ''rs1'') = Inr (Some rs1_record)
      \<and> py_getitem ?pa ''dbsnp'' = Inr (PDict [(''hg19'', ?hg)])
      \<and> py_getitem (PDict [(''hg19'', ?hg)]) ''hg19'' = Inr ?hg
      \<and> py_getitem ?hg ''chr'' = Inr (PStr ''chr1'')" if "net = example_net" for net
    unfolding that by (simp add: eval_defs py_replace.simps)
  have b: "net (ensembl_request (normalize_rsid ''rs1'')) = Inr (ok_response ?pb)
      \<and> json (ok_response ?pb) = Inr ?pb
      \<and> fst (get_hs37d5_loci_ensembl net ''rs1'') = Inr (Some rs1_record)
      \<and> py_getitem ?pb ''mappings'' = Inr (PList [?mapping])
      \<and> py_first (PList [?mapping]) = Inr ?mapping
      \<and> py_getitem ?mapping ''seq_region_name'' = Inr (PStr ''1'')" if "net = example_net" for net
    unfolding that by (simp add: eval_defs py_replace.simps)
  have c: "\<not> str_contains ''MT'' ''chr''" "\<not> str_contains ''X'' ''chr''"
    by (simp_all add: startswith_def)
  have d: "py_replace ''chr1'' ''chr'' '''' = ''1''"
    by (simp add: py_replace.simps startswith_def)
  from chromosome_is_name_without_chr
         [where net = example_net and rsid = "''rs1''"
            and response_a = "ok_response ?pa" and data_a = ?pa and ra = rs1_record
            and dbsnp = "PDict [(''hg19'', ?hg)]" and hg = ?hg and name_a = "''chr1''"
            and first = PNone
            and response_b = "ok_response ?pb" and data_b = ?pb and rb = rs1_record
            and mappings = "PList [?mapping]" and mapping = ?mapping and name_b = "''1''"
            and name = "''MT''" and rest = "''X''"]
       a [OF refl] b [OF refl] c d
  show ?thesis by blast
qed

subsection \<open>C9: a style the formatter does not know\<close>

text \<open>
  C9: for a record (a dict that is not empty) and every style other than \<^verbatim>\<open>hs37d5\<close>,
  a style the program never mentions included, the formatter does what it does for
  \<^verbatim>\<open>standard\<close>: where the compact style renders a text it renders \<^verbatim>\<open>chr\<close> followed by
  that text, and where the compact style raises (a key is missing, an alternate is not a
  string) it raises the same. The style is never rejected: a \<^verbatim>\<open>ValueError\<close> is never
  raised.
\<close>

theorem unknown_style_is_standard:
  assumes "style \<noteq> ''hs37d5''" and "found loci"
  shows "format_loci loci style = format_loci loci ''standard''
       \<and> format_loci loci style
           = (case format_loci loci ''hs37d5'' of Inl e \<Rightarrow> Inl e | Inr s \<Rightarrow> Inr (''chr'' @ s))
       \<and> format_loci loci style \<noteq> Inl (ValueError msg)"
proof -
  from assms(2) obtain d where d: "loci = Some d" by (cases loci) (simp_all add: found_def)
  from assms show ?thesis
    unfolding format_loci_def d
    by (auto simp: ebind_def Let_def item_no_ValueError split: sum.splits dest: py_join_error)
qed

theorem unknown_style_is_standard_witness:
  "''fancy'' \<noteq> ''hs37d5''
   \<and> found (Some (located ''rs1'' (PStr ''1'') (PInt 100) (PStr ''A'') (PList [PStr ''C'', PStr ''G''])))
   \<and> format_loci
        (Some (located ''rs1'' (PStr ''1'') (PInt 100) (PStr ''A'') (PList [PStr ''C'', PStr ''G''])))
        ''fancy''
       = Inr ''chr1:100 (A/C,G)''
   \<and> format_loci
        (Some (located ''rs1'' (PStr ''1'') (PInt 100) (PStr ''A'') (PList [PStr ''C'', PStr ''G''])))
        ''hs37d5''
       = Inr ''1:100 (A/C,G)''"
proof -
  let ?r = "Some (located ''rs1'' (PStr ''1'') (PInt 100) (PStr ''A'') (PList [PStr ''C'', PStr ''G'']))"
  have s: "''fancy'' \<noteq> ''hs37d5''" by simp
  have f: "found ?r" by (simp add: found_def located_def)
  have c: "format_loci ?r ''hs37d5'' = Inr ''1:100 (A/C,G)''"
    by (simp add: format_defs)
  from unknown_style_is_standard [OF s f, of "''x''"]
  have "format_loci ?r ''fancy''
          = (case format_loci ?r ''hs37d5'' of Inl e \<Rightarrow> Inl e | Inr t \<Rightarrow> Inr (''chr'' @ t))"
    by blast
  then have "format_loci ?r ''fancy'' = Inr ''chr1:100 (A/C,G)''"
    by (simp add: c)
  with s f c show ?thesis by blast
qed

subsection \<open>C10: validity is truthiness\<close>

text \<open>
  C10: the final check of both services tests the truth of chromosome and position, not
  their presence. A record whose chromosome is the empty string or whose position is
  the integer 0 is not returned although both keys are bound: the lookup returns
  \<^verbatim>\<open>None\<close>. So it is for the payloads that carry just a chromosome name and a start,
  when the name is empty after the removal of \<^verbatim>\<open>chr\<close> or the start is 0; and no
  record that a service returns has the chromosome \<^verbatim>\<open>''\<close> or the position 0.
\<close>

theorem validity_by_truthiness:
  "(map_of result ''chromosome'' = Some c \<and> map_of result ''position'' = Some p
      \<and> (c = PStr [] \<or> p = PInt 0) \<longrightarrow> return_if_located result = Inr None)
   \<and> (py_replace name ''chr'' '''' = [] \<or> start = PInt 0 \<longrightarrow>
        fst (get_hs37d5_loci_myvariant
               (always (ok_response (myvariant_payload (PStr name) start))) rsid) = Inr None
        \<and> fst (get_hs37d5_loci_ensembl
               (always (ok_response (ensembl_payload (PStr name) start))) rsid) = Inr None)
   \<and> (fst (get_hs37d5_loci_myvariant net rsid) = Inr (Some ra) \<longrightarrow>
        map_of ra ''chromosome'' \<noteq> Some (PStr []) \<and> map_of ra ''position'' \<noteq> Some (PInt 0))
   \<and> (fst (get_hs37d5_loci_ensembl net rsid) = Inr (Some rb) \<longrightarrow>
        map_of rb ''chromosome'' \<noteq> Some (PStr []) \<and> map_of rb ''position'' \<noteq> Some (PInt 0))"
proof (intro conjI impI)
  assume "map_of result ''chromosome'' = Some c \<and> map_of result ''position'' = Some p
      \<and> (c = PStr [] \<or> p = PInt 0)"
  then show "return_if_located result = Inr None"
    by (intro return_if_located_None [of result c p]) auto
next
  assume "py_replace name ''chr'' '''' = [] \<or> start = PInt 0"
  then show "fst (get_hs37d5_loci_myvariant
               (always (ok_response (myvariant_payload (PStr name) start))) rsid) = Inr None"
    by (auto simp: eval_defs)
next
  assume "py_replace name ''chr'' '''' = [] \<or> start = PInt 0"
  then show "fst (get_hs37d5_loci_ensembl
               (always (ok_response (ensembl_payload (PStr name) start))) rsid) = Inr None"
    by (auto simp: eval_defs)
next
  assume "fst (get_hs37d5_loci_myvariant net rsid) = Inr (Some ra)"
  then have "\<exists>c p. map_of ra ''chromosome'' = Some c \<and> truthy c
               \<and> map_of ra ''position'' = Some p \<and> truthy p"
    by (intro service_record_located [of net rsid ra]) simp
  then show "map_of ra ''chromosome'' \<noteq> Some (PStr [])" "map_of ra ''position'' \<noteq> Some (PInt 0)"
    by auto
next
  assume "fst (get_hs37d5_loci_ensembl net rsid) = Inr (Some rb)"
  then have "\<exists>c p. map_of rb ''chromosome'' = Some c \<and> truthy c
               \<and> map_of rb ''position'' = Some p \<and> truthy p"
    by (intro service_record_located [of net rsid rb]) simp
  then show "map_of rb ''chromosome'' \<noteq> Some (PStr [])" "map_of rb ''position'' \<noteq> Some (PInt 0)"
    by auto
qed

text \<open>
  The name \<^verbatim>\<open>chr\<close> leaves an empty chromosome, and neither service returns a record
  for it; the record with position 0 is not returned either.
\<close>

theorem validity_by_truthiness_witness:
  "map_of (located ''rs1'' (PStr ''1'') (PInt 0) PNone (PList [])) ''chromosome'' = Some (PStr ''1'')
   \<and> map_of (located ''rs1'' (PStr ''1'') (PInt 0) PNone (PList [])) ''position'' = Some (PInt 0)
   \<and> return_if_located (located ''rs1'' (PStr ''1'') (PInt 0) PNone (PList [])) = Inr None
   \<and> py_replace ''chr'' ''chr'' '''' = []
   \<and> fst (get_hs37d5_loci_myvariant
           (always (ok_response (myvariant_payload (PStr ''chr'') (PInt 100)))) ''rs1'') = Inr None
   \<and> fst (get_hs37d5_loci_ensembl
           (always (ok_response (ensembl_payload (PStr ''chr'') (PInt 100)))) ''rs1'') = Inr None
   \<and> fst (get_hs37d5_loci_myvariant example_net ''rs1'') = Inr (Some rs1_record)
   \<and> fst (get_hs37d5_loci_ensembl example_net ''rs1'') = Inr (Some rs1_record)
   \<and> map_of rs1_record ''chromosome'' \<noteq> Some (PStr [])
   \<and> map_of rs1_record ''position'' \<noteq> Some (PInt 0)"
proof -
  let ?zero = "located ''rs1'' (PStr ''1'') (PInt 0) PNone (PList [])"
  have r: "map_of ?zero ''chromosome'' = Some (PStr ''1'')
           \<and> map_of ?zero ''position'' = Some (PInt 0) \<and> (PStr ''1'' = PStr [] \<or> PInt 0 = PInt 0)"
    by (simp add: located_def)
  have e: "py_replace ''chr'' ''chr'' '''' = []"
    by (simp add: py_replace.simps startswith_def)
  have a: "fst (get_hs37d5_loci_myvariant example_net ''rs1'') = Inr (Some rs1_record)"
    by (simp add: example_net_myvariant)
  have b: "fst (get_hs37d5_loci_ensembl example_net ''rs1'') = Inr (Some rs1_record)"
    by (simp add: example_net_ensembl)
  from validity_by_truthiness
         [where result = ?zero and c = "PStr ''1''" and p = "PInt 0"
            and name = "''chr''" and start = "PInt 100" and rsid = "''rs1''"
            and net = example_net and ra = rs1_record and rb = rs1_record]
       r e a b
  show ?thesis by blast
qed

end
